theory Spec2Isabelle
  imports Complex_Main
begin

section \<open>The spa accessories: pump and thermostat controllers\<close>

text \<open>
  A shallow embedding of \<^verbatim>\<open>src/pumpAccessory.ts\<close> and
  \<^verbatim>\<open>src/thermostatAccessory.ts\<close>.

  Conventions of the embedding.
  \<^item> A JavaScript \<^verbatim>\<open>number\<close> that carries a temperature, a percentage or a configured
    count is a \<^typ>\<open>real\<close>; a number that is produced by \<^verbatim>\<open>Math.round\<close>, by
    \<^verbatim>\<open>indexOf\<close> or by an integer literal (a pump level, a pump number) is an
    \<^typ>\<open>int\<close>. The non-finite numbers (NaN, the infinities) and the rounding of
    binary floating point are outside the model; where the source could produce a
    non-finite number (a division by zero) the model returns \<open>None\<close>.
  \<^item> A value that may be \<^verbatim>\<open>undefined\<close> (an array read out of range) is an
    \<open>option\<close>, with \<open>None\<close> for \<^verbatim>\<open>undefined\<close>.
  \<^item> Every handler calls its \<^verbatim>\<open>callback\<close> exactly once on every path. A SET
    handler returns the argument of that call together with the state it leaves; a GET
    handler, whose callback is always \<^verbatim>\<open>callback(null, v)\<close>, returns \<open>v\<close>.
  \<^item> Debug logging has no effect on the state and is left out; the one warning of
    the pump's constructor is returned by it.
\<close>

subsection \<open>The device oracle (\<^verbatim>\<open>this.platform.spa\<close>)\<close>

text \<open>
  Modelled from the spec: the flow states. The constants \<^verbatim>\<open>FLOW_GOOD\<close> and
  \<^verbatim>\<open>FLOW_FAILED\<close> are imported from \<^verbatim>\<open>./spaClient\<close>, which is not among the
  sources; the spec names the flow states \<open>Good\<close> and \<open>Failed\<close>, and the comment in
  \<^verbatim>\<open>getTargetHeatingState\<close> mentions a third one, "LOW". All that the handlers use
  is that the two imported constants are different values.
\<close>

datatype flow_state = FLOW_GOOD | FLOW_LOW | FLOW_FAILED

text \<open>
  Modelled from the spec: the interface of the device oracle. The class behind
  \<^verbatim>\<open>this.platform.spa\<close> is not among the sources; the spec treats it as a
  synchronous state oracle with getters and setters. The handlers are written against
  an arbitrary implementation of that interface: \<^typ>\<open>'o\<close> is the oracle's own state,
  a getter reads it, a setter maps it to the state after the call. So a handler that
  leaves the oracle's state as it found it, for every implementation, has invoked no
  setter.
\<close>

record 'o SpaClient =
  spa_get_pump1 :: "'o \<Rightarrow> string option"
  spa_get_pump2 :: "'o \<Rightarrow> string option"
  spa_get_pump3 :: "'o \<Rightarrow> string option"
  spa_set_pump1 :: "string option \<Rightarrow> 'o \<Rightarrow> 'o"
  spa_set_pump2 :: "string option \<Rightarrow> 'o \<Rightarrow> 'o"
  spa_set_pump3 :: "string option \<Rightarrow> 'o \<Rightarrow> 'o"
  spa_getTargetTemp :: "'o \<Rightarrow> real"
  spa_setTargetTemperature :: "real \<Rightarrow> 'o \<Rightarrow> 'o"
  spa_getTempRangeIsHigh :: "'o \<Rightarrow> bool"
  spa_setTempRangeIsHigh :: "bool \<Rightarrow> 'o \<Rightarrow> 'o"
  spa_getFlowState :: "'o \<Rightarrow> flow_state"

subsection \<open>The framework side\<close>

text \<open>The argument a SET handler hands to its callback: \<^verbatim>\<open>null\<close> or an \<^verbatim>\<open>Error\<close>.\<close>

datatype callback = Null | Error string

text \<open>
  \<^verbatim>\<open>Characteristic.TargetHeatingCoolingState\<close> of the framework: OFF = 0, HEAT = 1,
  COOL = 2, AUTO = 3.
\<close>

datatype TargetHeatingCoolingState = OFF | HEAT | COOL | AUTO

text \<open>
  The calls the thermostat makes on the framework's \<^verbatim>\<open>TargetTemperature\<close>
  characteristic, in the order they are made.
\<close>

datatype characteristic_call =
  SetProps real real real   \<comment> \<open>minValue, maxValue, minStep\<close>
| UpdateValue real

subsection \<open>The thermostat (\<^verbatim>\<open>thermostatAccessory.ts\<close>)\<close>

text \<open>
  The state a thermostat handler works on: the oracle and the log of calls made on the
  \<^verbatim>\<open>TargetTemperature\<close> characteristic (most recent last).
\<close>

record 'o thermostat =
  spa :: 'o
  TargetTemperature :: "characteristic_call list"

definition setTargetTempMinMax :: "'o thermostat \<Rightarrow> 'o thermostat" where
  "setTargetTempMinMax t =
     t\<lparr>TargetTemperature := TargetTemperature t @ [SetProps 10.0 40.0 0.5]\<rparr>"

definition getTargetHeatingState :: "'o SpaClient \<Rightarrow> 'o thermostat \<Rightarrow> TargetHeatingCoolingState" where
  "getTargetHeatingState c t =
     (let mode = spa_getTempRangeIsHigh c (spa t);
          flowError = (spa_getFlowState c (spa t) = FLOW_FAILED)
      in if flowError then OFF
         else (if mode then HEAT else COOL))"

definition setTargetHeatingState ::
  "'o SpaClient \<Rightarrow> TargetHeatingCoolingState \<Rightarrow> 'o thermostat \<Rightarrow> callback \<times> 'o thermostat" where
  "setTargetHeatingState c v t =
     (let proceed =
            (let heating = (v = HEAT);
                 t1 = t\<lparr>spa := spa_setTempRangeIsHigh c heating (spa t)\<rparr>;
                 t2 = setTargetTempMinMax t1;
                 t3 = t2\<lparr>TargetTemperature :=
                          TargetTemperature t2 @ [UpdateValue (spa_getTargetTemp c (spa t2))]\<rparr>
             in (Null, t3))
      in if v = OFF then
           (if spa_getFlowState c (spa t) = FLOW_GOOD then
              (Error ''Spa doesn't allow turned heating off. Reverting.'', t)
            else proceed)
         else if spa_getFlowState c (spa t) = FLOW_FAILED then
           (Error ''Water flow has failed. Heating off'', t)
         else proceed)"

definition getTargetTemperature :: "'o SpaClient \<Rightarrow> 'o thermostat \<Rightarrow> real" where
  "getTargetTemperature c t = spa_getTargetTemp c (spa t)"

definition setTargetTemperature ::
  "'o SpaClient \<Rightarrow> real \<Rightarrow> 'o thermostat \<Rightarrow> callback \<times> 'o thermostat" where
  "setTargetTemperature c v t =
     (let write = (Null, t\<lparr>spa := spa_setTargetTemperature c v (spa t)\<rparr>)
      in if spa_getTempRangeIsHigh c (spa t) then
           (if v < 26.5 then
              (Error ''Temperature out of bounds [26.5,40.0]'',
               t\<lparr>TargetTemperature := TargetTemperature t @ [UpdateValue 26.5]\<rparr>)
            else write)
         else
           (if v > 36.0 then
              (Error ''Temperature out of bounds [10.0,36.0]'',
               t\<lparr>TargetTemperature := TargetTemperature t @ [UpdateValue 36.0]\<rparr>)
            else write))"

subsection \<open>The pump (\<^verbatim>\<open>pumpAccessory.ts\<close>)\<close>

text \<open>
  \<^verbatim>\<open>Math.round\<close>: the integer closest to \<open>x\<close>, the larger one when two are equally
  close.
\<close>

definition Math_round :: "real \<Rightarrow> int" where
  "Math_round x = \<lfloor>x + 1 / 2\<rfloor>"

text \<open>
  A JavaScript division whose result is used as a finite number: dividing by zero gives
  an infinity or NaN there, which no \<^typ>\<open>real\<close> stands for.
\<close>

definition js_divide :: "real \<Rightarrow> real \<Rightarrow> real option" where
  "js_divide x y = (if y = 0 then None else Some (x / y))"

text \<open>An array read \<^verbatim>\<open>xs[i]\<close>: \<^verbatim>\<open>undefined\<close> out of range.\<close>

definition array_get :: "'a list \<Rightarrow> int \<Rightarrow> 'a option" where
  "array_get xs i = (if 0 \<le> i \<and> i < int (length xs) then Some (xs ! nat i) else None)"

text \<open>\<^verbatim>\<open>xs.indexOf(v)\<close>: the first index holding \<open>v\<close>, or \<open>-1\<close>.\<close>

fun indexOf_from :: "int \<Rightarrow> 'a list \<Rightarrow> 'a \<Rightarrow> int" where
  "indexOf_from i [] v = - 1"
| "indexOf_from i (x # xs) v = (if x = v then i else indexOf_from (i + 1) xs v)"

definition indexOf :: "'a list \<Rightarrow> 'a option \<Rightarrow> int" where
  "indexOf xs v = (case v of None \<Rightarrow> - 1 | Some a \<Rightarrow> indexOf_from 0 xs a)"

definition speeds :: "string list" where
  "speeds = [''Off'', ''Low'', ''High'']"

text \<open>
  The fields of a \<^verbatim>\<open>PumpAccessory\<close> that its handlers read or write:
  \<^verbatim>\<open>states.lastSpeed\<close>, \<^verbatim>\<open>speedSettings\<close> and \<^verbatim>\<open>pumpNumber\<close>.
\<close>

record pump =
  lastSpeed :: int
  speedSettings :: real
  pumpNumber :: int

text \<open>The warning the constructor logs, with the value it complains about.\<close>

datatype log_entry = Warn_bad_speed_settings real

text \<open>
  The constructor, from the configured \<^verbatim>\<open>accessory.context.device.pumpRange\<close> (a
  number, as the field \<^verbatim>\<open>speedSettings\<close> it is assigned to is declared) and the pump
  number: the pump it builds and what it logs. The registration of the service and of
  the handlers has no part in what the handlers compute and is left out.
\<close>

definition PumpAccessory :: "real \<Rightarrow> int \<Rightarrow> pump \<times> log_entry list" where
  "PumpAccessory pumpRange n =
     (if pumpRange \<noteq> 1 \<and> pumpRange \<noteq> 2 then
        (\<lparr>lastSpeed = 2, speedSettings = 1, pumpNumber = n\<rparr>,
         [Warn_bad_speed_settings pumpRange])
      else
        (\<lparr>lastSpeed = 2, speedSettings = pumpRange, pumpNumber = n\<rparr>, []))"

text \<open>The state a pump handler works on: the accessory's fields and the oracle.\<close>

type_synonym 'o pump_state = "pump \<times> 'o"

definition getSpeed :: "'o SpaClient \<Rightarrow> 'o pump_state \<Rightarrow> int" where
  "getSpeed c st =
     (case st of (p, s) \<Rightarrow>
        if pumpNumber p = 1 then indexOf speeds (spa_get_pump1 c s)
        else if pumpNumber p = 2 then indexOf speeds (spa_get_pump2 c s)
        else if pumpNumber p = 3 then indexOf speeds (spa_get_pump3 c s)
        else 0)"

definition setSpeed :: "'o SpaClient \<Rightarrow> int \<Rightarrow> 'o pump_state \<Rightarrow> 'o pump_state" where
  "setSpeed c speed st =
     (case st of (p, s) \<Rightarrow>
        (let s' = (if pumpNumber p = 1 then spa_set_pump1 c (array_get speeds speed) s
                   else if pumpNumber p = 2 then spa_set_pump2 c (array_get speeds speed) s
                   else if pumpNumber p = 3 then spa_set_pump3 c (array_get speeds speed) s
                   else s)
         in if speed \<noteq> 0 then (p\<lparr>lastSpeed := speed\<rparr>, s') else (p, s')))"

definition setOn :: "'o SpaClient \<Rightarrow> bool \<Rightarrow> 'o pump_state \<Rightarrow> callback \<times> 'o pump_state" where
  "setOn c v st =
     (if v then (Null, setSpeed c (lastSpeed (fst st)) st)
      else (Null, setSpeed c 0 st))"


definition setRotationSpeed :: "'o SpaClient \<Rightarrow> real \<Rightarrow> 'o pump_state \<Rightarrow> callback \<times> 'o pump_state" where
  "setRotationSpeed c v st =
     (let speed = Math_round (v * speedSettings (fst st) / 100.0)
      in (Null, setSpeed c speed st))"

definition getRotationSpeed :: "'o SpaClient \<Rightarrow> 'o pump_state \<Rightarrow> real option" where
  "getRotationSpeed c st =
     (let speed = getSpeed c st
      in js_divide (100.0 * real_of_int speed) (speedSettings (fst st)))"

text \<open>
  The requests the framework can make of a pump, and a run of them in order; the
  callbacks' arguments and the values read are dropped, the state is threaded.
\<close>

datatype pump_request = SetOn bool | GetOn | SetRotationSpeed real | GetRotationSpeed

fun pump_step :: "'o SpaClient \<Rightarrow> pump_request \<Rightarrow> 'o pump_state \<Rightarrow> 'o pump_state" where
  "pump_step c (SetOn v) st = snd (setOn c v st)"
| "pump_step c GetOn st = st"
| "pump_step c (SetRotationSpeed v) st = snd (setRotationSpeed c v st)"
| "pump_step c GetRotationSpeed st = st"

fun pump_run :: "'o SpaClient \<Rightarrow> pump_request list \<Rightarrow> 'o pump_state \<Rightarrow> 'o pump_state" where
  "pump_run c [] st = st"
| "pump_run c (r # rs) st = pump_run c rs (pump_step c r st)"

subsection \<open>A storing oracle\<close>

text \<open>
  Modelled from the spec: the setter calls of the device oracle, as the entries of the
  list a storing oracle keeps of the calls made on it.
\<close>

datatype spa_call =
  Call_set_pump1 "string option"
| Call_set_pump2 "string option"
| Call_set_pump3 "string option"
| Call_setTargetTemperature real
| Call_setTempRangeIsHigh bool

text \<open>
  Modelled from the spec: the device state an oracle holds (the level of each pump, the
  target temperature, the temperature range, the flow state), with the setter calls made
  so far, most recent last, so that "never invoked" can be read off a state.
\<close>

record store =
  pump1 :: "string option"
  pump2 :: "string option"
  pump3 :: "string option"
  targetTemp :: real
  tempRangeIsHigh :: bool
  flowState :: flow_state
  calls :: "spa_call list"

text \<open>
  Modelled from the spec: an oracle that returns what was last stored ("the oracle
  returns the last level written", "an oracle that returns what was stored"). A getter
  reads a field, a setter writes it and records the call.
\<close>

definition store_client :: "store SpaClient" where
  "store_client =
     \<lparr>spa_get_pump1 = pump1,
      spa_get_pump2 = pump2,
      spa_get_pump3 = pump3,
      spa_set_pump1 = (\<lambda>v s. s\<lparr>pump1 := v, calls := calls s @ [Call_set_pump1 v]\<rparr>),
      spa_set_pump2 = (\<lambda>v s. s\<lparr>pump2 := v, calls := calls s @ [Call_set_pump2 v]\<rparr>),
      spa_set_pump3 = (\<lambda>v s. s\<lparr>pump3 := v, calls := calls s @ [Call_set_pump3 v]\<rparr>),
      spa_getTargetTemp = targetTemp,
      spa_setTargetTemperature =
        (\<lambda>v s. s\<lparr>targetTemp := v, calls := calls s @ [Call_setTargetTemperature v]\<rparr>),
      spa_getTempRangeIsHigh = tempRangeIsHigh,
      spa_setTempRangeIsHigh =
        (\<lambda>v s. s\<lparr>tempRangeIsHigh := v, calls := calls s @ [Call_setTempRangeIsHigh v]\<rparr>),
      spa_getFlowState = flowState\<rparr>"

text \<open>
  Modelled from the spec: a device state to start the instances from. Every pump is
  off, the target is 30, the range is high, the flow is good, no setter was called.
\<close>

definition store0 :: store where
  "store0 =
     \<lparr>pump1 = Some ''Off'', pump2 = Some ''Off'', pump3 = Some ''Off'',
      targetTemp = 30, tempRangeIsHigh = True, flowState = FLOW_GOOD, calls = []\<rparr>"

text \<open>
  Modelled from the spec: a storing oracle over a device that re-targets its setpoint
  when the range changes ("the physical device autonomously re-targets its setpoint on
  a mode change"): on a switch to the low range a target above 36 drops to 36, on a
  switch to the high range a target below 26.5 rises to 26.5. Only the instances below
  use it, to tell a read made after the mode write from one made before it.
\<close>

definition retargeting_client :: "store SpaClient" where
  "retargeting_client =
     store_client\<lparr>spa_setTempRangeIsHigh :=
       (\<lambda>v s. s\<lparr>tempRangeIsHigh := v,
                 targetTemp := (if v then max (targetTemp s) 26.5 else min (targetTemp s) 36.0),
                 calls := calls s @ [Call_setTempRangeIsHigh v]\<rparr>)\<rparr>"

section \<open>The thermostat's properties\<close>

text \<open>
  Claim C4. For every oracle state, \<^verbatim>\<open>getTargetHeatingState\<close> returns Off whenever the
  oracle reports a failed flow, whatever the heating mode; when the flow is good it
  returns Heat if the mode is High and Cool if it is Low.
\<close>

theorem getTargetHeatingState_table:
  "(spa_getFlowState c (spa t) = FLOW_FAILED \<longrightarrow> getTargetHeatingState c t = OFF) \<and>
   (spa_getFlowState c (spa t) = FLOW_GOOD \<and> spa_getTempRangeIsHigh c (spa t) \<longrightarrow>
      getTargetHeatingState c t = HEAT) \<and>
   (spa_getFlowState c (spa t) = FLOW_GOOD \<and> \<not> spa_getTempRangeIsHigh c (spa t) \<longrightarrow>
      getTargetHeatingState c t = COOL)"
  by (simp add: getTargetHeatingState_def)

theorem getTargetHeatingState_table_witness:
  "getTargetHeatingState store_client
     \<lparr>spa = store0\<lparr>flowState := FLOW_FAILED\<rparr>, TargetTemperature = []\<rparr> = OFF \<and>
   getTargetHeatingState store_client
     \<lparr>spa = store0\<lparr>flowState := FLOW_FAILED, tempRangeIsHigh := False\<rparr>,
      TargetTemperature = []\<rparr> = OFF \<and>
   getTargetHeatingState store_client \<lparr>spa = store0, TargetTemperature = []\<rparr> = HEAT \<and>
   getTargetHeatingState store_client
     \<lparr>spa = store0\<lparr>tempRangeIsHigh := False\<rparr>, TargetTemperature = []\<rparr> = COOL"
  using
    getTargetHeatingState_table [of store_client
      "\<lparr>spa = store0\<lparr>flowState := FLOW_FAILED\<rparr>, TargetTemperature = []\<rparr>"]
    getTargetHeatingState_table [of store_client
      "\<lparr>spa = store0\<lparr>flowState := FLOW_FAILED, tempRangeIsHigh := False\<rparr>,
        TargetTemperature = []\<rparr>"]
    getTargetHeatingState_table [of store_client "\<lparr>spa = store0, TargetTemperature = []\<rparr>"]
    getTargetHeatingState_table [of store_client
      "\<lparr>spa = store0\<lparr>tempRangeIsHigh := False\<rparr>, TargetTemperature = []\<rparr>"]
  by (simp add: store_client_def store0_def)

text \<open>
  Claim C2. A call of \<^verbatim>\<open>setTargetHeatingState\<close> with the value Off while the oracle
  reports a good flow is rejected with an error and mutates nothing: the state is the
  one the call found, so \<^verbatim>\<open>setTempRangeIsHigh\<close> was not called and the heating mode
  is what it was.
\<close>

theorem setTargetHeatingState_off_good_flow_rejected:
  assumes "spa_getFlowState c (spa t) = FLOW_GOOD"
  shows "setTargetHeatingState c OFF t =
           (Error ''Spa doesn't allow turned heating off. Reverting.'', t) \<and>
         spa (snd (setTargetHeatingState c OFF t)) = spa t \<and>
         spa_getTempRangeIsHigh c (spa (snd (setTargetHeatingState c OFF t))) =
           spa_getTempRangeIsHigh c (spa t)"
  using assms by (simp add: setTargetHeatingState_def Let_def)

theorem setTargetHeatingState_off_good_flow_rejected_witness:
  "fst (setTargetHeatingState store_client OFF \<lparr>spa = store0, TargetTemperature = []\<rparr>) =
     Error ''Spa doesn't allow turned heating off. Reverting.'' \<and>
   calls (spa (snd (setTargetHeatingState store_client OFF
     \<lparr>spa = store0, TargetTemperature = []\<rparr>))) = [] \<and>
   tempRangeIsHigh (spa (snd (setTargetHeatingState store_client OFF
     \<lparr>spa = store0, TargetTemperature = []\<rparr>))) = True"
  using setTargetHeatingState_off_good_flow_rejected
    [of store_client "\<lparr>spa = store0, TargetTemperature = []\<rparr>"]
  by (simp add: store_client_def store0_def)

text \<open>
  Claim C3. A call of \<^verbatim>\<open>setTargetHeatingState\<close> with the value Heat or Cool while the
  oracle reports a failed flow is rejected with an error and leaves the state as it
  found it: \<^verbatim>\<open>setTempRangeIsHigh\<close> was not called, the heating mode is unchanged.
\<close>

theorem setTargetHeatingState_failed_flow_rejected:
  assumes "v = HEAT \<or> v = COOL" and "spa_getFlowState c (spa t) = FLOW_FAILED"
  shows "setTargetHeatingState c v t = (Error ''Water flow has failed. Heating off'', t) \<and>
         spa (snd (setTargetHeatingState c v t)) = spa t \<and>
         spa_getTempRangeIsHigh c (spa (snd (setTargetHeatingState c v t))) =
           spa_getTempRangeIsHigh c (spa t)"
  using assms by (auto simp add: setTargetHeatingState_def Let_def)

theorem setTargetHeatingState_failed_flow_rejected_witness:
  "fst (setTargetHeatingState store_client HEAT
     \<lparr>spa = store0\<lparr>flowState := FLOW_FAILED, tempRangeIsHigh := False\<rparr>,
      TargetTemperature = []\<rparr>) = Error ''Water flow has failed. Heating off'' \<and>
   calls (spa (snd (setTargetHeatingState store_client HEAT
     \<lparr>spa = store0\<lparr>flowState := FLOW_FAILED, tempRangeIsHigh := False\<rparr>,
      TargetTemperature = []\<rparr>))) = [] \<and>
   tempRangeIsHigh (spa (snd (setTargetHeatingState store_client HEAT
     \<lparr>spa = store0\<lparr>flowState := FLOW_FAILED, tempRangeIsHigh := False\<rparr>,
      TargetTemperature = []\<rparr>))) = False \<and>
   fst (setTargetHeatingState store_client COOL
     \<lparr>spa = store0\<lparr>flowState := FLOW_FAILED\<rparr>, TargetTemperature = []\<rparr>) =
     Error ''Water flow has failed. Heating off'' \<and>
   tempRangeIsHigh (spa (snd (setTargetHeatingState store_client COOL
     \<lparr>spa = store0\<lparr>flowState := FLOW_FAILED\<rparr>, TargetTemperature = []\<rparr>))) = True"
  using
    setTargetHeatingState_failed_flow_rejected [of HEAT store_client
      "\<lparr>spa = store0\<lparr>flowState := FLOW_FAILED, tempRangeIsHigh := False\<rparr>,
        TargetTemperature = []\<rparr>"]
    setTargetHeatingState_failed_flow_rejected [of COOL store_client
      "\<lparr>spa = store0\<lparr>flowState := FLOW_FAILED\<rparr>, TargetTemperature = []\<rparr>"]
  by (simp add: store_client_def store0_def)

text \<open>
  Claim C10. A call of \<^verbatim>\<open>setTargetHeatingState\<close> with the value Off while the oracle
  reports a failed flow is not a read-only acknowledgement: it succeeds, calls
  \<^verbatim>\<open>setTempRangeIsHigh(false)\<close> on the oracle (the low range), sets the properties of
  the target temperature again and then publishes the target temperature it reads from
  the oracle after that write.
\<close>

theorem setTargetHeatingState_off_failed_flow_sets_low:
  assumes "spa_getFlowState c (spa t) = FLOW_FAILED"
  shows "setTargetHeatingState c OFF t =
           (Null,
            t\<lparr>spa := spa_setTempRangeIsHigh c False (spa t),
              TargetTemperature := TargetTemperature t @
                [SetProps 10.0 40.0 0.5,
                 UpdateValue (spa_getTargetTemp c (spa_setTempRangeIsHigh c False (spa t)))]\<rparr>)"
  using assms by (simp add: setTargetHeatingState_def setTargetTempMinMax_def Let_def)

theorem setTargetHeatingState_off_failed_flow_sets_low_witness:
  "setTargetHeatingState retargeting_client OFF
     \<lparr>spa = store0\<lparr>flowState := FLOW_FAILED, targetTemp := 38\<rparr>, TargetTemperature = []\<rparr> =
   (Null,
    \<lparr>spa = store0\<lparr>flowState := FLOW_FAILED, targetTemp := 36, tempRangeIsHigh := False,
                   calls := [Call_setTempRangeIsHigh False]\<rparr>,
     TargetTemperature = [SetProps 10.0 40.0 0.5, UpdateValue 36]\<rparr>)"
  using setTargetHeatingState_off_failed_flow_sets_low [of retargeting_client
    "\<lparr>spa = store0\<lparr>flowState := FLOW_FAILED, targetTemp := 38\<rparr>, TargetTemperature = []\<rparr>"]
  by (simp add: retargeting_client_def store_client_def store0_def)

text \<open>
  Claim C1. For every call of \<^verbatim>\<open>setTargetTemperature\<close>: if the oracle's heating mode
  is High and the requested temperature is below 26.5, the handler publishes the
  clamped value 26.5 to the \<^verbatim>\<open>TargetTemperature\<close> characteristic and returns an
  error, and the oracle is as the call found it (its \<^verbatim>\<open>setTargetTemperature\<close> was not
  invoked, the stored target is unchanged); if the mode is Low and the requested
  temperature is above 36.0, it publishes 36.0 and returns an error, the oracle again
  untouched.
\<close>

theorem setTargetTemperature_out_of_bounds_rejected:
  "(spa_getTempRangeIsHigh c (spa t) \<and> v < 26.5 \<longrightarrow>
      setTargetTemperature c v t =
        (Error ''Temperature out of bounds [26.5,40.0]'',
         t\<lparr>TargetTemperature := TargetTemperature t @ [UpdateValue 26.5]\<rparr>) \<and>
      spa (snd (setTargetTemperature c v t)) = spa t \<and>
      spa_getTargetTemp c (spa (snd (setTargetTemperature c v t))) =
        spa_getTargetTemp c (spa t)) \<and>
   (\<not> spa_getTempRangeIsHigh c (spa t) \<and> v > 36.0 \<longrightarrow>
      setTargetTemperature c v t =
        (Error ''Temperature out of bounds [10.0,36.0]'',
         t\<lparr>TargetTemperature := TargetTemperature t @ [UpdateValue 36.0]\<rparr>) \<and>
      spa (snd (setTargetTemperature c v t)) = spa t \<and>
      spa_getTargetTemp c (spa (snd (setTargetTemperature c v t))) =
        spa_getTargetTemp c (spa t))"
  by (simp add: setTargetTemperature_def Let_def)

theorem setTargetTemperature_out_of_bounds_rejected_witness:
  "setTargetTemperature store_client 20 \<lparr>spa = store0, TargetTemperature = []\<rparr> =
     (Error ''Temperature out of bounds [26.5,40.0]'',
      \<lparr>spa = store0, TargetTemperature = [UpdateValue 26.5]\<rparr>) \<and>
   calls (spa (snd (setTargetTemperature store_client 20
     \<lparr>spa = store0, TargetTemperature = []\<rparr>))) = [] \<and>
   targetTemp (spa (snd (setTargetTemperature store_client 20
     \<lparr>spa = store0, TargetTemperature = []\<rparr>))) = 30 \<and>
   setTargetTemperature store_client 37
       \<lparr>spa = store0\<lparr>tempRangeIsHigh := False\<rparr>, TargetTemperature = []\<rparr> =
     (Error ''Temperature out of bounds [10.0,36.0]'',
      \<lparr>spa = store0\<lparr>tempRangeIsHigh := False\<rparr>, TargetTemperature = [UpdateValue 36]\<rparr>) \<and>
   calls (spa (snd (setTargetTemperature store_client 37
     \<lparr>spa = store0\<lparr>tempRangeIsHigh := False\<rparr>, TargetTemperature = []\<rparr>))) = []"
  using
    setTargetTemperature_out_of_bounds_rejected [of store_client
      "\<lparr>spa = store0, TargetTemperature = []\<rparr>" 20]
    setTargetTemperature_out_of_bounds_rejected [of store_client
      "\<lparr>spa = store0\<lparr>tempRangeIsHigh := False\<rparr>, TargetTemperature = []\<rparr>" 37]
  by (simp add: store_client_def store0_def)

text \<open>
  Claim C8. For every call of \<^verbatim>\<open>setTargetTemperature\<close> with a requested temperature
  inside the bound the current mode checks (mode High and at least 26.5, or mode Low
  and at most 36.0), the requested value is handed unchanged to the oracle's
  \<^verbatim>\<open>setTargetTemperature\<close>, nothing is published and the call succeeds; with an oracle
  that returns what was stored, \<^verbatim>\<open>getTargetTemperature\<close> then returns that value.
\<close>

theorem setTargetTemperature_in_bounds_written:
  assumes "(spa_getTempRangeIsHigh c (spa t) \<and> v \<ge> 26.5) \<or>
           (\<not> spa_getTempRangeIsHigh c (spa t) \<and> v \<le> 36.0)"
  shows "setTargetTemperature c v t = (Null, t\<lparr>spa := spa_setTargetTemperature c v (spa t)\<rparr>) \<and>
         ((\<forall>x s. spa_getTargetTemp c (spa_setTargetTemperature c x s) = x) \<longrightarrow>
            getTargetTemperature c (snd (setTargetTemperature c v t)) = v)"
  using assms by (auto simp add: setTargetTemperature_def getTargetTemperature_def Let_def)

theorem setTargetTemperature_in_bounds_written_witness:
  "setTargetTemperature store_client 30
       \<lparr>spa = store0\<lparr>targetTemp := 38\<rparr>, TargetTemperature = []\<rparr> =
     (Null,
      \<lparr>spa = store0\<lparr>targetTemp := 30, calls := [Call_setTargetTemperature 30]\<rparr>,
       TargetTemperature = []\<rparr>) \<and>
   getTargetTemperature store_client (snd (setTargetTemperature store_client 30
     \<lparr>spa = store0\<lparr>targetTemp := 38\<rparr>, TargetTemperature = []\<rparr>)) = 30 \<and>
   getTargetTemperature store_client (snd (setTargetTemperature store_client 12
     \<lparr>spa = store0\<lparr>tempRangeIsHigh := False\<rparr>, TargetTemperature = []\<rparr>)) = 12"
  using
    setTargetTemperature_in_bounds_written [of store_client
      "\<lparr>spa = store0\<lparr>targetTemp := 38\<rparr>, TargetTemperature = []\<rparr>" 30]
    setTargetTemperature_in_bounds_written [of store_client
      "\<lparr>spa = store0\<lparr>tempRangeIsHigh := False\<rparr>, TargetTemperature = []\<rparr>" 12]
  by (auto simp add: store_client_def store0_def)

section \<open>The pump's properties\<close>

subsection \<open>What \<^verbatim>\<open>setSpeed\<close> leaves of the accessory's fields\<close>

lemma fst_setSpeed_speedSettings [simp]:
  "speedSettings (fst (setSpeed c l st)) = speedSettings (fst st)"
  by (cases st) (simp add: setSpeed_def Let_def)

lemma fst_setSpeed_pumpNumber [simp]:
  "pumpNumber (fst (setSpeed c l st)) = pumpNumber (fst st)"
  by (cases st) (simp add: setSpeed_def Let_def)

lemma fst_setSpeed_lastSpeed:
  "lastSpeed (fst (setSpeed c l st)) = (if l \<noteq> 0 then l else lastSpeed (fst st))"
  by (cases st) (simp add: setSpeed_def Let_def)

lemma pump_step_speedSettings [simp]:
  "speedSettings (fst (pump_step c r st)) = speedSettings (fst st)"
  by (cases r) (simp_all add: setOn_def setRotationSpeed_def Let_def)

lemma pump_run_speedSettings:
  "speedSettings (fst (pump_run c rs st)) = speedSettings (fst st)"
  by (induction rs arbitrary: st) simp_all

subsection \<open>Levels and the table of speeds\<close>

lemma Math_round_range:
  assumes "0 \<le> x" and "x \<le> 2"
  shows "Math_round x = 0 \<or> Math_round x = 1 \<or> Math_round x = 2"
proof -
  have "0 \<le> Math_round x"
    using assms(1) by (simp add: Math_round_def)
  moreover have "Math_round x \<le> 2"
    using assms(2) unfolding Math_round_def by linarith
  ultimately show ?thesis by linarith
qed

lemma indexOf_speeds_array_get:
  assumes "l = 0 \<or> l = 1 \<or> l = 2"
  shows "indexOf speeds (array_get speeds l) = l"
  using assms by (auto simp add: indexOf_def array_get_def speeds_def)

text \<open>
  Reading the speed back after \<^verbatim>\<open>setSpeed\<close>, when the oracle returns for this
  pump's index what was last written to it.
\<close>

lemma getSpeed_setSpeed:
  assumes "(pumpNumber (fst st) = 1 \<and> (\<forall>x s. spa_get_pump1 c (spa_set_pump1 c x s) = x)) \<or>
           (pumpNumber (fst st) = 2 \<and> (\<forall>x s. spa_get_pump2 c (spa_set_pump2 c x s) = x)) \<or>
           (pumpNumber (fst st) = 3 \<and> (\<forall>x s. spa_get_pump3 c (spa_set_pump3 c x s) = x))"
  shows "getSpeed c (setSpeed c l st) = indexOf speeds (array_get speeds l)"
  using assms by (cases st) (auto simp add: getSpeed_def setSpeed_def Let_def)

subsection \<open>The claims\<close>

text \<open>
  Claim C9. For every configured \<^verbatim>\<open>pumpRange\<close> value \<open>r\<close>: after construction the
  pump's \<^verbatim>\<open>speedSettings\<close> is 1 or 2; if \<open>r\<close> is neither 1 nor 2 it is corrected to 1
  and a warning is logged (the constructor still returns a pump), otherwise it is \<open>r\<close>
  and nothing is logged; and after any run of requests the pump's \<^verbatim>\<open>speedSettings\<close>
  is the value the constructor left, so no request ever sees one outside 1 and 2.
\<close>

theorem speedSettings_one_or_two:
  "(speedSettings (fst (PumpAccessory r n)) = 1 \<or> speedSettings (fst (PumpAccessory r n)) = 2) \<and>
   (r \<noteq> 1 \<and> r \<noteq> 2 \<longrightarrow>
      speedSettings (fst (PumpAccessory r n)) = 1 \<and>
      snd (PumpAccessory r n) = [Warn_bad_speed_settings r]) \<and>
   (r = 1 \<or> r = 2 \<longrightarrow>
      speedSettings (fst (PumpAccessory r n)) = r \<and> snd (PumpAccessory r n) = []) \<and>
   speedSettings (fst (pump_run c rs (fst (PumpAccessory r n), s))) =
     speedSettings (fst (PumpAccessory r n)) \<and>
   (speedSettings (fst (pump_run c rs (fst (PumpAccessory r n), s))) = 1 \<or>
    speedSettings (fst (pump_run c rs (fst (PumpAccessory r n), s))) = 2)"
proof -
  have ctor: "speedSettings (fst (PumpAccessory r n)) = 1 \<or>
              speedSettings (fst (PumpAccessory r n)) = 2"
    by (simp add: PumpAccessory_def)
  have run: "speedSettings (fst (pump_run c rs (fst (PumpAccessory r n), s))) =
             speedSettings (fst (PumpAccessory r n))"
    by (simp add: pump_run_speedSettings)
  show ?thesis
    using ctor run by (auto simp add: PumpAccessory_def)
qed

theorem speedSettings_one_or_two_witness:
  "speedSettings (fst (PumpAccessory 3 1)) = 1 \<and>
   snd (PumpAccessory 3 1) = [Warn_bad_speed_settings 3] \<and>
   speedSettings (fst (PumpAccessory 2 1)) = 2 \<and>
   snd (PumpAccessory 2 1) = [] \<and>
   speedSettings (fst (pump_run store_client
     [SetRotationSpeed 50, SetOn False, GetOn, SetOn True, GetRotationSpeed]
     (fst (PumpAccessory 3 1), store0))) = 1"
  using
    speedSettings_one_or_two [of 3 1 store_client
      "[SetRotationSpeed 50, SetOn False, GetOn, SetOn True, GetRotationSpeed]" store0]
    speedSettings_one_or_two [of 2 1 store_client "[]" store0]
  by simp

text \<open>
  Claim C5. For every pump: after a \<^verbatim>\<open>setRotationSpeed\<close> that resolves to a level
  \<open>l\<close> other than 0, \<^verbatim>\<open>setOn(false)\<close> followed by \<^verbatim>\<open>setOn(true)\<close> sets the speed
  \<open>l\<close> again: turning off is \<^verbatim>\<open>setSpeed(0)\<close> and leaves \<^verbatim>\<open>lastSpeed\<close> at \<open>l\<close>,
  turning on is \<^verbatim>\<open>setSpeed(l)\<close>, which hands the entry \<open>l\<close> of the table of speeds
  to the oracle's setter of this pump (the pump's number being 1, 2 or 3, the pumps the
  oracle has). And a pump fresh from its constructor has \<^verbatim>\<open>lastSpeed\<close> 2, so its
  first \<^verbatim>\<open>setOn(true)\<close> writes "High".
\<close>

theorem setOn_off_on_reproduces_level:
  "(let l = Math_round (v * speedSettings p / 100);
        st1 = snd (setRotationSpeed c v (p, s));
        st2 = snd (setOn c False st1);
        st3 = snd (setOn c True st2)
    in l \<noteq> 0 \<longrightarrow>
         st1 = setSpeed c l (p, s) \<and> lastSpeed (fst st1) = l \<and>
         st2 = setSpeed c 0 st1 \<and> lastSpeed (fst st2) = l \<and>
         st3 = setSpeed c l st2 \<and> lastSpeed (fst st3) = l \<and>
         (pumpNumber p = 1 \<longrightarrow> snd st3 = spa_set_pump1 c (array_get speeds l) (snd st2)) \<and>
         (pumpNumber p = 2 \<longrightarrow> snd st3 = spa_set_pump2 c (array_get speeds l) (snd st2)) \<and>
         (pumpNumber p = 3 \<longrightarrow> snd st3 = spa_set_pump3 c (array_get speeds l) (snd st2))) \<and>
   (let p0 = fst (PumpAccessory r n);
        st = snd (setOn c True (p0, s))
    in lastSpeed p0 = 2 \<and> lastSpeed (fst st) = 2 \<and>
       (n = 1 \<longrightarrow> snd st = spa_set_pump1 c (Some ''High'') s) \<and>
       (n = 2 \<longrightarrow> snd st = spa_set_pump2 c (Some ''High'') s) \<and>
       (n = 3 \<longrightarrow> snd st = spa_set_pump3 c (Some ''High'') s))"
  (is "?sticky \<and> ?fresh")
proof
  show ?sticky
    by (simp add: Let_def setRotationSpeed_def setOn_def fst_setSpeed_lastSpeed)
       (simp add: setSpeed_def Let_def)
  show ?fresh
    by (simp add: Let_def PumpAccessory_def setOn_def setSpeed_def array_get_def speeds_def)
qed

theorem setOn_off_on_reproduces_level_witness:
  "Math_round (50 * speedSettings (fst (PumpAccessory 2 1)) / 100) = 1 \<and>
   lastSpeed (fst (snd (setOn store_client False
     (snd (setRotationSpeed store_client 50 (fst (PumpAccessory 2 1), store0)))))) = 1 \<and>
   snd (snd (setOn store_client True (snd (setOn store_client False
     (snd (setRotationSpeed store_client 50 (fst (PumpAccessory 2 1), store0))))))) =
     store0\<lparr>pump1 := Some ''Low'',
            calls := [Call_set_pump1 (Some ''Low''), Call_set_pump1 (Some ''Off''),
                      Call_set_pump1 (Some ''Low'')]\<rparr> \<and>
   snd (snd (setOn store_client True (fst (PumpAccessory 1 2), store0))) =
     store0\<lparr>pump2 := Some ''High'', calls := [Call_set_pump2 (Some ''High'')]\<rparr>"
proof -
  let ?p = "fst (PumpAccessory 2 1)"
  let ?st2 = "snd (setOn store_client False
    (snd (setRotationSpeed store_client 50 (?p, store0))))"
  have l: "Math_round (50 * speedSettings ?p / 100) = 1"
    by (simp add: PumpAccessory_def Math_round_def)
  have n: "pumpNumber ?p = 1"
    by (simp add: PumpAccessory_def)
  have nz: "(1::int) \<noteq> 0"
    by simp
  have off: "snd ?st2 =
      store0\<lparr>pump1 := Some ''Off'',
             calls := [Call_set_pump1 (Some ''Low''), Call_set_pump1 (Some ''Off'')]\<rparr>"
    using l by (simp add: setOn_def setRotationSpeed_def setSpeed_def PumpAccessory_def
        array_get_def speeds_def store_client_def store0_def Let_def)
  note inst = setOn_off_on_reproduces_level
    [of 50 ?p store_client store0 1 2, unfolded Let_def l]
  have sticky: "lastSpeed (fst ?st2) = 1"
    using inst nz by blast
  have again: "snd (snd (setOn store_client True ?st2)) =
      spa_set_pump1 store_client (array_get speeds 1) (snd ?st2)"
    using inst nz n by blast
  have fresh: "snd (snd (setOn store_client True (fst (PumpAccessory 1 2), store0))) =
      spa_set_pump2 store_client (Some ''High'') store0"
    using inst by blast
  have w1: "spa_set_pump1 store_client (array_get speeds 1) (snd ?st2) =
      store0\<lparr>pump1 := Some ''Low'',
             calls := [Call_set_pump1 (Some ''Low''), Call_set_pump1 (Some ''Off''),
                       Call_set_pump1 (Some ''Low'')]\<rparr>"
    unfolding off by (simp add: array_get_def speeds_def store_client_def store0_def)
  have w2: "spa_set_pump2 store_client (Some ''High'') store0 =
      store0\<lparr>pump2 := Some ''High'', calls := [Call_set_pump2 (Some ''High'')]\<rparr>"
    by (simp add: store_client_def store0_def)
  show ?thesis
    using l sticky again fresh unfolding w1 w2 by blast
qed




text \<open>
  Claim C7. For every percentage \<open>v\<close> from 0 to 100 and every pump whose speed setting
  count \<open>s\<close> is 1 or 2: when the oracle returns for this pump's index (one of its
  three pumps) the level last written to it, \<^verbatim>\<open>getRotationSpeed\<close> after
  \<^verbatim>\<open>setRotationSpeed(v)\<close> yields \<open>round (v * s / 100) * 100 / s\<close>, where \<open>round\<close>
  rounds to the nearest integer and a half upwards, as \<^verbatim>\<open>Math.round\<close> does.
\<close>

theorem rotation_speed_round_trip:
  assumes "0 \<le> v" and "v \<le> 100"
    and "speedSettings p = 1 \<or> speedSettings p = 2"
    and "(pumpNumber p = 1 \<and> (\<forall>x s. spa_get_pump1 c (spa_set_pump1 c x s) = x)) \<or>
         (pumpNumber p = 2 \<and> (\<forall>x s. spa_get_pump2 c (spa_set_pump2 c x s) = x)) \<or>
         (pumpNumber p = 3 \<and> (\<forall>x s. spa_get_pump3 c (spa_set_pump3 c x s) = x))"
  shows "getRotationSpeed c (snd (setRotationSpeed c v (p, s))) =
           Some (real_of_int (round (v * speedSettings p / 100)) * 100 / speedSettings p)"
proof -
  let ?x = "v * speedSettings p / 100"
  have x0: "0 \<le> ?x" using assms(1,3) by auto
  have x2: "?x \<le> 2" using assms(1,2,3) by auto
  have r: "Math_round ?x = round ?x" by (simp add: Math_round_def round_def)
  have idx: "indexOf speeds (array_get speeds (Math_round ?x)) = Math_round ?x"
    by (rule indexOf_speeds_array_get) (rule Math_round_range [OF x0 x2])
  have "getSpeed c (setSpeed c (Math_round ?x) (p, s)) = Math_round ?x"
    using getSpeed_setSpeed [of "(p, s)" c "Math_round ?x"] assms(4) idx by simp
  then show ?thesis
    using assms(3) r
    by (auto simp add: getRotationSpeed_def setRotationSpeed_def js_divide_def Let_def)
qed

theorem rotation_speed_round_trip_witness:
  "getRotationSpeed store_client
     (snd (setRotationSpeed store_client 30 (fst (PumpAccessory 2 1), store0))) = Some 50 \<and>
   getRotationSpeed store_client
     (snd (setRotationSpeed store_client 24 (fst (PumpAccessory 2 2), store0))) = Some 0 \<and>
   getRotationSpeed store_client
     (snd (setRotationSpeed store_client 80 (fst (PumpAccessory 2 3), store0))) = Some 100 \<and>
   getRotationSpeed store_client
     (snd (setRotationSpeed store_client 50 (fst (PumpAccessory 1 1), store0))) = Some 100"
  using
    rotation_speed_round_trip [of 30 "fst (PumpAccessory 2 1)" store_client store0]
    rotation_speed_round_trip [of 24 "fst (PumpAccessory 2 2)" store_client store0]
    rotation_speed_round_trip [of 80 "fst (PumpAccessory 2 3)" store_client store0]
    rotation_speed_round_trip [of 50 "fst (PumpAccessory 1 1)" store_client store0]
  by (simp add: PumpAccessory_def store_client_def round_def)

end
